theory Spec2Isabelle
  imports Main "HOL-Library.Word"
begin

section \<open>JavaScript strings and exceptions\<close>

text \<open>
  A JavaScript string is a sequence of UTF-16 code units. The handlers of
  \<^verbatim>\<open>functions/[filename].ts\<close> and \<^verbatim>\<open>functions/[[path]].ts\<close> only compare, cut and
  concatenate strings, so a string is modelled as the list of its code units.
  \<open>js\<close> writes an ASCII literal of the source as such a list.
\<close>

type_synonym code_unit = "16 word"
type_synonym jsstring = "code_unit list"

definition js :: "string \<Rightarrow> jsstring" where
  "js s = map (\<lambda>c. of_nat (of_char c)) s"

text \<open>
  The exceptions a handler can throw. An exception that leaves a handler is answered by
  the Pages runtime with a server error; the handlers catch only the one around
  \<^verbatim>\<open>s3.send\<close> in \<^verbatim>\<open>onRequestGet\<close>.
\<close>

datatype storage_error = NoSuchKey | ServiceFailure nat

datatype exn = URIError | TypeError | StorageError storage_error | NetworkError

definition and_then :: "exn + 'a \<Rightarrow> ('a \<Rightarrow> exn + 'b) \<Rightarrow> exn + 'b" where
  "and_then r f = (case r of Inl e \<Rightarrow> Inl e | Inr x \<Rightarrow> f x)"

section \<open>\<^verbatim>\<open>decodeURIComponent\<close>\<close>

text \<open>
  The built-in \<^verbatim>\<open>decodeURIComponent\<close> is the abstract operation Decode of ECMA-262
  with an empty set of preserved escapes. It copies every code unit other than \<open>%\<close>;
  at a \<open>%\<close> it reads two hexadecimal digits as an octet \<open>B\<close>; an octet below 128 is
  the code unit itself; otherwise the number \<open>n\<close> of leading one bits of \<open>B\<close> is the
  length of a UTF-8 sequence whose other \<open>n - 1\<close> octets must follow as escapes, and the
  code point they encode is appended in UTF-16. Every malformed input throws URIError.
\<close>

definition hex_digit :: "code_unit \<Rightarrow> nat option" where
  "hex_digit c =
     (let n = unat c in
      if 48 \<le> n \<and> n \<le> 57 then Some (n - 48)
      else if 65 \<le> n \<and> n \<le> 70 then Some (n - 55)
      else if 97 \<le> n \<and> n \<le> 102 then Some (n - 87)
      else None)"

fun ParseHexOctet :: "jsstring \<Rightarrow> nat option" where
  "ParseHexOctet (h1 # h2 # rest) =
     (case hex_digit h1 of
        None \<Rightarrow> None
      | Some a \<Rightarrow> (case hex_digit h2 of None \<Rightarrow> None | Some b \<Rightarrow> Some (16 * a + b)))"
| "ParseHexOctet [h1] = None"
| "ParseHexOctet [] = None"

definition leading_ones :: "nat \<Rightarrow> nat" where
  "leading_ones B =
     (if B < 128 then 0 else if B < 192 then 1 else if B < 224 then 2
      else if B < 240 then 3 else if B < 248 then 4 else 5)"

text \<open>The escapes \<open>%XX\<close> of the \<open>j\<close> continuation octets, and the string after them.\<close>

fun continuation_octets :: "nat \<Rightarrow> jsstring \<Rightarrow> (nat list \<times> jsstring) option" where
  "continuation_octets 0 s = Some ([], s)"
| "continuation_octets (Suc j) [] = None"
| "continuation_octets (Suc j) (c # cs) =
     (if c \<noteq> 0x25 then None
      else case ParseHexOctet cs of
             None \<Rightarrow> None
           | Some b \<Rightarrow>
               (case continuation_octets j (drop 2 cs) of
                  None \<Rightarrow> None
                | Some (bs, rest) \<Rightarrow> Some (b # bs, rest)))"

definition is_continuation :: "nat \<Rightarrow> bool" where
  "is_continuation b = (128 \<le> b \<and> b < 192)"

text \<open>
  The code point of a well-formed UTF-8 sequence of two to four octets: the continuation
  octets have the form \<open>10xxxxxx\<close>, the encoding is the shortest one, it is no
  surrogate and it is at most \<open>0x10FFFF\<close>.
\<close>

fun utf8_code_point :: "nat list \<Rightarrow> nat option" where
  "utf8_code_point [b0, b1] =
     (let v = (b0 - 192) * 64 + (b1 - 128)
      in if is_continuation b1 \<and> 128 \<le> v then Some v else None)"
| "utf8_code_point [b0, b1, b2] =
     (let v = (b0 - 224) * 4096 + (b1 - 128) * 64 + (b2 - 128)
      in if is_continuation b1 \<and> is_continuation b2 \<and> 2048 \<le> v
            \<and> \<not> (55296 \<le> v \<and> v \<le> 57343)
         then Some v else None)"
| "utf8_code_point [b0, b1, b2, b3] =
     (let v = (b0 - 240) * 262144 + (b1 - 128) * 4096 + (b2 - 128) * 64 + (b3 - 128)
      in if is_continuation b1 \<and> is_continuation b2 \<and> is_continuation b3
            \<and> 65536 \<le> v \<and> v \<le> 1114111
         then Some v else None)"
| "utf8_code_point bs = None"

definition UTF16EncodeCodePoint :: "nat \<Rightarrow> jsstring" where
  "UTF16EncodeCodePoint cp =
     (if cp \<le> 65535 then [of_nat cp]
      else [of_nat (55296 + (cp - 65536) div 1024), of_nat (56320 + (cp - 65536) mod 1024)])"

function Decode :: "jsstring \<Rightarrow> exn + jsstring" where
  "Decode [] = Inr []"
| "Decode (c # cs) =
     (if c \<noteq> 0x25 then and_then (Decode cs) (\<lambda>R. Inr (c # R))
      else case ParseHexOctet cs of
             None \<Rightarrow> Inl URIError
           | Some B \<Rightarrow>
               (if leading_ones B = 0
                then and_then (Decode (drop 2 cs)) (\<lambda>R. Inr (of_nat B # R))
                else if leading_ones B = 1 \<or> 4 < leading_ones B then Inl URIError
                else case continuation_octets (leading_ones B - 1) (drop 2 cs) of
                       None \<Rightarrow> Inl URIError
                     | Some (Octets, rest) \<Rightarrow>
                         (case utf8_code_point (B # Octets) of
                            None \<Rightarrow> Inl URIError
                          | Some V \<Rightarrow>
                              and_then (Decode rest)
                                (\<lambda>R. Inr (UTF16EncodeCodePoint V @ R)))))"
  by pat_completeness auto
termination
proof (relation "measure length")
  show "wf (measure length)" by simp
next
  fix c :: code_unit and cs
  show "(cs, c # cs) \<in> measure length" by simp
next
  fix c :: code_unit and cs
  show "(drop 2 cs, c # cs) \<in> measure length" by simp
next
  fix c :: code_unit and cs B x2 Octets rest
  assume r: "continuation_octets (leading_ones B - 1) (drop 2 cs) = Some x2"
    and x2: "(Octets, rest) = x2"
  have shorter: "continuation_octets j s = Some (bs, t) \<Longrightarrow> length t \<le> length s"
    for j s bs t
  proof (induction j s arbitrary: bs t rule: continuation_octets.induct)
    case (1 s)
    then show ?case by simp
  next
    case (2 j)
    then show ?case by simp
  next
    case (3 j d ds)
    from "3.prems" obtain b bs' where
      b: "d = 0x25" "ParseHexOctet ds = Some b"
      and t: "continuation_octets j (drop 2 ds) = Some (bs', t)"
      by (auto split: if_splits option.splits)
    from "3.IH" [OF _ b(2) t] b(1) have "length t \<le> length (drop 2 ds)" by simp
    then show ?case by simp
  qed
  from r x2 have "length rest \<le> length (drop 2 cs)"
    using shorter [of "leading_ones B - 1" "drop 2 cs" Octets rest] by simp
  then show "(rest, c # cs) \<in> measure length" by simp
qed

definition decodeURIComponent :: "jsstring \<Rightarrow> exn + jsstring" where
  "decodeURIComponent s = Decode s"

section \<open>String and object operations of the handlers\<close>

definition endsWith :: "jsstring \<Rightarrow> jsstring \<Rightarrow> bool" where
  "endsWith s t = (length t \<le> length s \<and> drop (length s - length t) s = t)"

definition startsWith :: "jsstring \<Rightarrow> jsstring \<Rightarrow> bool" where
  "startsWith s t = (take (length t) s = t)"

text \<open>\<^verbatim>\<open>s.slice(start, stop)\<close>: a negative index counts from the end of the string.\<close>

definition slice :: "jsstring \<Rightarrow> int \<Rightarrow> int \<Rightarrow> jsstring" where
  "slice s start stop =
     (let len = int (length s);
          from = (if start < 0 then max (len + start) 0 else min start len);
          to = (if stop < 0 then max (len + stop) 0 else min stop len)
      in take (nat (to - from)) (drop (nat from) s))"

text \<open>\<^verbatim>\<open>s.replace(/^\/+/, "")\<close>: the string without its leading run of slashes.\<close>

definition strip_leading_slashes :: "jsstring \<Rightarrow> jsstring" where
  "strip_leading_slashes s = dropWhile (\<lambda>c. c = 0x2F) s"

text \<open>
  \<^verbatim>\<open>n.toString()\<close> of a number that is a byte count: its decimal digits (the rendering
  of every integer below \<open>10^21\<close>).
\<close>

fun Number_toString :: "nat \<Rightarrow> jsstring" where
  "Number_toString n =
     (if n < 10 then [of_nat (48 + n)]
      else Number_toString (n div 10) @ [of_nat (48 + n mod 10)])"

declare Number_toString.simps [simp del]

text \<open>
  An object with string values (\<^verbatim>\<open>Record<string, string>\<close>) is the list of its entries
  in insertion order, which \<^verbatim>\<open>Object.entries\<close> returns; \<open>map_of\<close> reads a property.
  \<^verbatim>\<open>Object.fromEntries\<close> sets the entries in turn: a key set again keeps its place
  and takes the later value.
\<close>

type_synonym Record = "(jsstring \<times> jsstring) list"

fun object_set :: "Record \<Rightarrow> jsstring \<Rightarrow> jsstring \<Rightarrow> Record" where
  "object_set [] k v = [(k, v)]"
| "object_set ((k', x) # obj) k v =
     (if k' = k then (k, v) # obj else (k', x) # object_set obj k v)"

definition fromEntries :: "(jsstring \<times> jsstring) list \<Rightarrow> Record" where
  "fromEntries entries = fold (\<lambda>(k, v) obj. object_set obj k v) entries []"

text \<open>\<^verbatim>\<open>undefined\<close> is \<open>None\<close>; a string argument of a platform method is converted
  with ToString, which spells \<^verbatim>\<open>undefined\<close> out.\<close>

definition ToString :: "jsstring option \<Rightarrow> jsstring" where
  "ToString v = (case v of None \<Rightarrow> js ''undefined'' | Some s \<Rightarrow> s)"

section \<open>The \<^verbatim>\<open>Headers\<close> class\<close>

text \<open>
  A \<^verbatim>\<open>Headers\<close> object is modelled after the Fetch standard as its header list, the
  names held in lower case, as \<^verbatim>\<open>get\<close>, \<^verbatim>\<open>entries\<close> and the wire expose them.
  \<^verbatim>\<open>set(name, value)\<close> converts both arguments to byte strings (TypeError on a code unit
  above 255), strips leading and trailing HTTP whitespace from the value, throws
  TypeError unless the name is a token and the value has no NUL, LF or CR, and then
  replaces the header of that name or appends a new one. \<^verbatim>\<open>get(name)\<close> compares
  names without regard to case and is \<^verbatim>\<open>null\<close> (\<open>None\<close>) for a missing header.
\<close>

type_synonym Headers = "(jsstring \<times> jsstring) list"

definition ascii_lower :: "code_unit \<Rightarrow> code_unit" where
  "ascii_lower c = (if 0x41 \<le> c \<and> c \<le> 0x5A then c + 0x20 else c)"

definition byte_lowercase :: "jsstring \<Rightarrow> jsstring" where
  "byte_lowercase s = map ascii_lower s"

definition is_ByteString :: "jsstring \<Rightarrow> bool" where
  "is_ByteString s = list_all (\<lambda>c. c \<le> 0xFF) s"

definition is_tchar :: "code_unit \<Rightarrow> bool" where
  "is_tchar c =
     ((0x30 \<le> c \<and> c \<le> 0x39) \<or> (0x41 \<le> c \<and> c \<le> 0x5A) \<or> (0x61 \<le> c \<and> c \<le> 0x7A)
      \<or> List.member [0x21, 0x23, 0x24, 0x25, 0x26, 0x27, 0x2A, 0x2B, 0x2D, 0x2E,
                      0x5E, 0x5F, 0x60, 0x7C, 0x7E] c)"

definition is_header_name :: "jsstring \<Rightarrow> bool" where
  "is_header_name n = (n \<noteq> [] \<and> list_all is_tchar n)"

definition is_http_whitespace :: "code_unit \<Rightarrow> bool" where
  "is_http_whitespace c = (c = 0x09 \<or> c = 0x0A \<or> c = 0x0D \<or> c = 0x20)"

definition normalize_value :: "jsstring \<Rightarrow> jsstring" where
  "normalize_value v =
     rev (dropWhile is_http_whitespace (rev (dropWhile is_http_whitespace v)))"

definition is_header_value :: "jsstring \<Rightarrow> bool" where
  "is_header_value v = list_all (\<lambda>c. c \<noteq> 0x00 \<and> c \<noteq> 0x0A \<and> c \<noteq> 0x0D) v"

fun header_list_set :: "Headers \<Rightarrow> jsstring \<Rightarrow> jsstring \<Rightarrow> Headers" where
  "header_list_set [] n v = [(n, v)]"
| "header_list_set ((n', x) # hs) n v =
     (if n' = n then (n, v) # filter (\<lambda>h. fst h \<noteq> n) hs
      else (n', x) # header_list_set hs n v)"

definition headers_set :: "Headers \<Rightarrow> jsstring \<Rightarrow> jsstring option \<Rightarrow> exn + Headers" where
  "headers_set hs name val =
     (let v = ToString val
      in if \<not> is_ByteString name \<or> \<not> is_ByteString v then Inl TypeError
         else if \<not> is_header_name name \<or> \<not> is_header_value (normalize_value v)
         then Inl TypeError
         else Inr (header_list_set hs (byte_lowercase name) (normalize_value v)))"

fun join :: "jsstring \<Rightarrow> jsstring list \<Rightarrow> jsstring" where
  "join sep [] = []"
| "join sep [v] = v"
| "join sep (v # w # vs) = v @ sep @ join sep (w # vs)"

definition headers_get :: "Headers \<Rightarrow> jsstring \<Rightarrow> jsstring option" where
  "headers_get hs name =
     (let vs = map snd (filter (\<lambda>h. fst h = byte_lowercase name) hs)
      in if vs = [] then None else Some (join (js '', '') vs))"

section \<open>Requests, responses and the collaborators of the handlers\<close>

text \<open>
  The request URL is held parsed, as \<^verbatim>\<open>new URL(context.request.url)\<close> gives it;
  \<open>headers\<close> of a request is the sequence \<^verbatim>\<open>headers.entries()\<close> iterates (lower-case
  names, one entry per name); \<open>body\<close> is the byte stream of the request, if any.
  \<open>BUCKET\<close> is the bucket name the deployment configures.
\<close>

type_synonym bytes = "8 word list"

record URL =
  pathname :: jsstring

record Request =
  url :: URL
  headers :: Headers
  body :: "bytes option"

record Env =
  BUCKET :: jsstring

record Params =
  filename :: jsstring

record Context =
  request :: Request
  env :: Env
  params :: Params

text \<open>
  A response is what \<^verbatim>\<open>new Response(body, {status, headers})\<close> makes of its arguments:
  the status is 200 unless given, and a body that is a string brings its
  \<^verbatim>\<open>content-type\<close> when the headers have none.
\<close>

datatype BodyInit = Text jsstring | Stream bytes

record Response =
  response_body :: BodyInit
  status :: nat
  response_headers :: Headers

definition new_Response :: "BodyInit \<Rightarrow> nat option \<Rightarrow> Headers \<Rightarrow> Response" where
  "new_Response b st hs =
     \<lparr> response_body = b,
       status = (case st of None \<Rightarrow> 200 | Some n \<Rightarrow> n),
       response_headers =
         (case b of
            Stream _ \<Rightarrow> hs
          | Text _ \<Rightarrow>
              (if headers_get hs (js ''content-type'') = None
               then hs @ [(js ''content-type'', js ''text/plain;charset=UTF-8'')]
               else hs)) \<rparr>"

text \<open>
  The commands of the storage client, with the fields the handlers give them in the
  order of the source, and the output of a \<^verbatim>\<open>GetObjectCommand\<close>, every field of which
  the client's types declare optional. A \<^verbatim>\<open>Date\<close> is what its \<^verbatim>\<open>toUTCString()\<close>
  returns; a presigned URL is the command and the lifetime it was signed for.
\<close>

datatype GetObjectCommand = GetObjectCommand jsstring jsstring
  \<comment> \<open>Bucket, Key\<close>

datatype CopyObjectCommand = CopyObjectCommand jsstring jsstring jsstring jsstring Record
  \<comment> \<open>Bucket, CopySource, Key, MetadataDirective, Metadata\<close>

datatype DeleteObjectCommand = DeleteObjectCommand jsstring jsstring
  \<comment> \<open>Bucket, Key\<close>

datatype Upload = Upload jsstring jsstring "bytes option" Record nat nat bool
  \<comment> \<open>params: Bucket, Key, Body, Metadata; queueSize, partSize, leavePartsOnError\<close>

datatype SignedUrl = SignedUrl DeleteObjectCommand nat

record Date =
  toUTCString :: jsstring

record GetObjectCommandOutput =
  Body :: "bytes option"
  Metadata :: "Record option"
  ContentType :: "jsstring option"
  ContentLength :: "nat option"
  LastModified :: "Date option"
  ETag :: "jsstring option"

text \<open>
  What the handlers import and call but do not define: \<^verbatim>\<open>auth\<close> of
  \<^verbatim>\<open>utils/utils\<close>, \<^verbatim>\<open>mime.getType\<close> (\<open>None\<close> is its \<^verbatim>\<open>null\<close>), the client made by
  \<^verbatim>\<open>createS3Client\<close> with \<^verbatim>\<open>send\<close> for each kind of command, \<^verbatim>\<open>done()\<close> of an
  upload, \<^verbatim>\<open>getSignedUrl\<close> and \<^verbatim>\<open>fetch\<close>. Each storage call takes the state \<open>'st\<close>
  of the world and returns the new one with its result or the exception it rejects
  with; \<^verbatim>\<open>fetch\<close> resolves to the status of the reply.
\<close>

record 'st Services =
  auth :: "Env \<Rightarrow> Request \<Rightarrow> bool"
  getType :: "jsstring \<Rightarrow> jsstring option"
  send_GetObject :: "GetObjectCommand \<Rightarrow> 'st \<Rightarrow> (exn + GetObjectCommandOutput) \<times> 'st"
  send_CopyObject :: "CopyObjectCommand \<Rightarrow> 'st \<Rightarrow> (exn + unit) \<times> 'st"
  Upload_done :: "Upload \<Rightarrow> 'st \<Rightarrow> (exn + unit) \<times> 'st"
  getSignedUrl :: "DeleteObjectCommand \<Rightarrow> nat \<Rightarrow> exn + SignedUrl"
  fetch :: "SignedUrl \<Rightarrow> jsstring \<Rightarrow> 'st \<Rightarrow> (exn + nat) \<times> 'st"

section \<open>The handlers of \<^verbatim>\<open>functions/[filename].ts\<close>\<close>

text \<open>Lines 22 and 23 of \<^verbatim>\<open>onRequestGet\<close>: the object key of a file name.\<close>

definition key_of_filename :: "jsstring \<Rightarrow> exn + jsstring" where
  "key_of_filename name =
     and_then (decodeURIComponent name)
       (\<lambda>key. Inr (if endsWith key (js ''/'') then slice key 0 (- 1) else key))"

text \<open>Lines 38 to 40: every metadata entry is set as a header.\<close>

fun set_entries :: "Headers \<Rightarrow> (jsstring \<times> jsstring) list \<Rightarrow> exn + Headers" where
  "set_entries hs [] = Inr hs"
| "set_entries hs ((key, val) # entries) =
     and_then (headers_set hs key (Some val)) (\<lambda>hs'. set_entries hs' entries)"

text \<open>Lines 43 to 46: the content type before the text override.\<close>

definition contentType_of ::
  "(jsstring \<Rightarrow> jsstring option) \<Rightarrow> GetObjectCommandOutput \<Rightarrow> jsstring \<Rightarrow> jsstring option"
where
  "contentType_of mime_getType response key =
     (if ContentType response \<noteq> Some (js ''application/octet-stream'')
      then ContentType response
      else (case mime_getType key of
              None \<Rightarrow> Some (js ''application/octet-stream'')
            | Some t \<Rightarrow> if t = [] then Some (js ''application/octet-stream'') else Some t))"

text \<open>
  Lines 37 to 57: the headers of the response. Reading the entries of a missing
  \<^verbatim>\<open>Metadata\<close> and calling a method of a missing \<^verbatim>\<open>ContentLength\<close> or
  \<^verbatim>\<open>LastModified\<close> throws TypeError.
\<close>

definition build_headers ::
  "'st Services \<Rightarrow> GetObjectCommandOutput \<Rightarrow> jsstring \<Rightarrow> exn + Headers"
where
  "build_headers sv response key =
     (case Metadata response of
        None \<Rightarrow> Inl TypeError
      | Some metadata \<Rightarrow>
          and_then (set_entries [] metadata) (\<lambda>h1.
          and_then (headers_set h1 (js ''content-type'')
                      (contentType_of (getType sv) response key)) (\<lambda>h2.
          and_then (if map_of metadata (js ''x-store-type'') = Some (js ''text'')
                    then headers_set h2 (js ''content-type'')
                           (Some (js ''text/plain;charset=utf-8''))
                    else Inr h2) (\<lambda>h3.
          case ContentLength response of
            None \<Rightarrow> Inl TypeError
          | Some n \<Rightarrow>
              and_then (headers_set h3 (js ''content-length'') (Some (Number_toString n))) (\<lambda>h4.
              case LastModified response of
                None \<Rightarrow> Inl TypeError
              | Some d \<Rightarrow>
                  and_then (headers_set h4 (js ''last-modified'') (Some (toUTCString d))) (\<lambda>h5.
                  headers_set h5 (js ''etag'') (ETag response)))))))"

definition not_found :: Response where
  "not_found = new_Response (Text (js ''Not found'')) (Some 404) []"

definition unauthorized :: Response where
  "unauthorized = new_Response (Text (js ''Unauthorized'')) (Some 401) []"

definition ok :: Response where
  "ok = new_Response (Text (js ''OK'')) (Some 200) []"

definition onRequestGet :: "'st Services \<Rightarrow> Context \<Rightarrow> 'st \<Rightarrow> (exn + Response) \<times> 'st" where
  "onRequestGet sv context st =
     (case key_of_filename (filename (params context)) of
        Inl e \<Rightarrow> (Inl e, st)
      | Inr key \<Rightarrow>
          (case send_GetObject sv (GetObjectCommand (BUCKET (env context)) key) st of
             (Inl e, st') \<Rightarrow> (Inr not_found, st')
           | (Inr response, st') \<Rightarrow>
               (case build_headers sv response key of
                  Inl e \<Rightarrow> (Inl e, st')
                | Inr hs \<Rightarrow>
                    if headers_get hs (js ''x-store-visibility'') \<noteq> Some (js ''public'')
                       \<and> \<not> auth sv (env context) (request context)
                    then (Inr not_found, st')
                    else
                      (case headers_set hs (js ''content-disposition'')
                              (Some (js ''inline; filename='' @ [0x22] @ key @ [0x22])) of
                         Inl e \<Rightarrow> (Inl e, st')
                       | Inr hs' \<Rightarrow>
                           (case Body response of
                              None \<Rightarrow> (Inl TypeError, st')
                            | Some b \<Rightarrow> (Inr (new_Response (Stream b) None hs'), st'))))))"

text \<open>Lines 82 to 87 and 114 to 119: the request headers named \<open>x-store-...\<close>.\<close>

definition x_store_headers :: "Headers \<Rightarrow> (jsstring \<times> jsstring) list" where
  "x_store_headers hs = filter (\<lambda>(key, val). startsWith key (js ''x-store-'')) hs"

definition onRequestPut :: "'st Services \<Rightarrow> Context \<Rightarrow> 'st \<Rightarrow> (exn + Response) \<times> 'st" where
  "onRequestPut sv context st =
     (if \<not> auth sv (env context) (request context) then (Inr unauthorized, st)
      else
        (case decodeURIComponent (filename (params context)) of
           Inl e \<Rightarrow> (Inl e, st)
         | Inr key \<Rightarrow>
             (case Upload_done sv
                     (Upload (BUCKET (env context)) key (body (request context))
                        (fromEntries (x_store_headers (headers (request context))))
                        4 (1024 * 1024 * 5) False) st of
                (Inl e, st') \<Rightarrow> (Inl e, st')
              | (Inr u, st') \<Rightarrow> (Inr ok, st'))))"

definition onRequestPatch :: "'st Services \<Rightarrow> Context \<Rightarrow> 'st \<Rightarrow> (exn + Response) \<times> 'st" where
  "onRequestPatch sv context st =
     (if \<not> auth sv (env context) (request context) then (Inr unauthorized, st)
      else
        (case decodeURIComponent (filename (params context)) of
           Inl e \<Rightarrow> (Inl e, st)
         | Inr key \<Rightarrow>
             (case send_CopyObject sv
                     (CopyObjectCommand (BUCKET (env context))
                        (BUCKET (env context) @ js ''/'' @ key) key (js ''REPLACE'')
                        (fromEntries (x_store_headers (headers (request context))))) st of
                (Inl e, st') \<Rightarrow> (Inl e, st')
              | (Inr u, st') \<Rightarrow> (Inr ok, st'))))"

definition onRequestDelete :: "'st Services \<Rightarrow> Context \<Rightarrow> 'st \<Rightarrow> (exn + Response) \<times> 'st" where
  "onRequestDelete sv context st =
     (if \<not> auth sv (env context) (request context) then (Inr unauthorized, st)
      else
        (case decodeURIComponent (filename (params context)) of
           Inl e \<Rightarrow> (Inl e, st)
         | Inr key \<Rightarrow>
             (case getSignedUrl sv (DeleteObjectCommand (BUCKET (env context)) key) 3600 of
                Inl e \<Rightarrow> (Inl e, st)
              | Inr u \<Rightarrow>
                  (case fetch sv u (js ''DELETE'') st of
                     (Inl e, st') \<Rightarrow> (Inl e, st')
                   | (Inr reply, st') \<Rightarrow> (Inr ok, st')))))"

definition onRequest :: "'st Services \<Rightarrow> Context \<Rightarrow> 'st \<Rightarrow> (exn + Response) \<times> 'st" where
  "onRequest sv context st =
     (Inr (new_Response (Text (js ''Method not allowed'')) (Some 405) []), st)"

section \<open>The catch-all route of \<^verbatim>\<open>functions/[[path]].ts\<close>\<close>

text \<open>
  Its \<^verbatim>\<open>onRequestGet\<close> decodes the path of the URL without its leading slashes, stores
  the result as the \<^verbatim>\<open>filename\<close> parameter and calls the handler above.
\<close>

definition path_onRequestGet ::
  "'st Services \<Rightarrow> Context \<Rightarrow> 'st \<Rightarrow> (exn + Response) \<times> 'st"
where
  "path_onRequestGet sv context st =
     (case decodeURIComponent (strip_leading_slashes (pathname (url (request context)))) of
        Inl e \<Rightarrow> (Inl e, st)
      | Inr path \<Rightarrow> onRequestGet sv (context\<lparr>params := \<lparr>filename = path\<rparr>\<rparr>) st)"

section \<open>The storage capability\<close>

text \<open>
  The storage service and the client that \<^verbatim>\<open>createS3Client\<close> of \<^verbatim>\<open>utils/utils\<close>
  makes for it are not among the sources. The handlers above take them as the
  parameter \<open>sv\<close>; this section gives that parameter the behaviour the specification
  describes, for the claims that are about the effect of a handler on the stored
  objects.
\<close>

text \<open>
  Modelled from the spec: the stored object of section 3, missing with the storage
  service. It owns its content and its metadata and has the storage-native fields
  declared content type, last-modified and entity tag; its size is the length of the
  content.
\<close>

record StoredObject =
  content :: bytes
  metadata :: Record
  declared_type :: jsstring
  last_modified :: Date
  entity_tag :: jsstring

text \<open>
  Modelled from the spec: the state of the storage service, missing from the sources.
  It maps a bucket and a key to the object stored there; the time and the entity tag
  the service gives to the next object it writes are its own choice and held here.
\<close>

record Storage =
  objects :: "jsstring \<times> jsstring \<Rightarrow> StoredObject option"
  now :: Date
  fresh_tag :: jsstring

text \<open>
  Modelled from the spec: the operation \<^verbatim>\<open>get(key)\<close> of section 6, missing with the
  storage service. It fails when the object is absent (section 4.4, step 2) and returns
  the content, the metadata and the storage-native fields otherwise.
\<close>

definition storage_get ::
  "GetObjectCommand \<Rightarrow> Storage \<Rightarrow> (exn + GetObjectCommandOutput) \<times> Storage"
where
  "storage_get cmd st =
     (case cmd of GetObjectCommand bucket key \<Rightarrow>
        (case objects st (bucket, key) of
           None \<Rightarrow> (Inl (StorageError NoSuchKey), st)
         | Some obj \<Rightarrow>
             (Inr \<lparr> Body = Some (content obj),
                    Metadata = Some (metadata obj),
                    ContentType = Some (declared_type obj),
                    ContentLength = Some (length (content obj)),
                    LastModified = Some (last_modified obj),
                    ETag = Some (entity_tag obj) \<rparr>, st)))"

text \<open>
  Modelled from the spec: the operation \<^verbatim>\<open>put(key, metadataMap, bodyStream)\<close> of
  section 6, missing with the storage service. It creates or replaces the object at the
  key (section 4.5, step 4); the handler declares no content type, so the object has
  the generic one.
\<close>

definition storage_put :: "Upload \<Rightarrow> Storage \<Rightarrow> (exn + unit) \<times> Storage" where
  "storage_put up st =
     (case up of Upload bucket key data md queueSize partSize leavePartsOnError \<Rightarrow>
        (Inr (),
         st\<lparr>objects := (objects st)((bucket, key) \<mapsto>
              \<lparr> content = (case data of None \<Rightarrow> [] | Some b \<Rightarrow> b),
                metadata = md,
                declared_type = js ''application/octet-stream'',
                last_modified = now st,
                entity_tag = fresh_tag st \<rparr>)\<rparr>))"

text \<open>
  Modelled from the spec: how the storage service, missing from the sources, reads the
  source \<open>bucket/key\<close> of a copy: the bucket is what stands before the first slash.
\<close>

definition copy_source :: "jsstring \<Rightarrow> jsstring \<times> jsstring" where
  "copy_source s = (takeWhile (\<lambda>c. c \<noteq> 0x2F) s, drop 1 (dropWhile (\<lambda>c. c \<noteq> 0x2F) s))"

text \<open>
  Modelled from the spec: the operation \<^verbatim>\<open>copyMetadata(key, metadataMap)\<close> of section
  6, missing with the storage service. A copy whose source object does not exist fails
  and creates nothing; with the directive \<^verbatim>\<open>REPLACE\<close> the copy has the given metadata in
  place of the source's, not merged with it, and the source's content (sections 3 and
  4.6, step 4).
\<close>

definition storage_copy :: "CopyObjectCommand \<Rightarrow> Storage \<Rightarrow> (exn + unit) \<times> Storage" where
  "storage_copy cmd st =
     (case cmd of CopyObjectCommand bucket source key directive md \<Rightarrow>
        (case objects st (copy_source source) of
           None \<Rightarrow> (Inl (StorageError NoSuchKey), st)
         | Some obj \<Rightarrow>
             (Inr (),
              st\<lparr>objects := (objects st)((bucket, key) \<mapsto>
                   (if directive = js ''REPLACE'' then obj\<lparr>metadata := md\<rparr> else obj))\<rparr>)))"

text \<open>
  Modelled from the spec: the operation \<^verbatim>\<open>delete(key)\<close> of section 6 behind a URL
  made by \<^verbatim>\<open>presign\<close>, missing with the storage service. A DELETE request to the URL
  removes the object and succeeds also when there is none (section 4.7, step 3); the
  URL is signed for that method only.
\<close>

definition storage_fetch :: "SignedUrl \<Rightarrow> jsstring \<Rightarrow> Storage \<Rightarrow> (exn + nat) \<times> Storage" where
  "storage_fetch u method st =
     (case u of SignedUrl (DeleteObjectCommand bucket key) expiresIn \<Rightarrow>
        (if method = js ''DELETE''
         then (Inr 204, st\<lparr>objects := (objects st)((bucket, key) := None)\<rparr>)
         else (Inr 403, st)))"

text \<open>
  The collaborators of a deployment on that storage, for a credential predicate and a
  MIME table; signing a URL is a local computation that succeeds.
\<close>

definition storage_services ::
  "(Env \<Rightarrow> Request \<Rightarrow> bool) \<Rightarrow> (jsstring \<Rightarrow> jsstring option) \<Rightarrow> Storage Services"
where
  "storage_services a m =
     \<lparr> auth = a, getType = m,
       send_GetObject = storage_get,
       send_CopyObject = storage_copy,
       Upload_done = storage_put,
       getSignedUrl = (\<lambda>cmd expiresIn. Inr (SignedUrl cmd expiresIn)),
       fetch = storage_fetch \<rparr>"

section \<open>Metadata as the storage client returns it\<close>

text \<open>
  The client builds \<^verbatim>\<open>Metadata\<close> from the reply's \<open>x-amz-meta-...\<close> headers: an
  object with one entry per name, the names in lower case and the values without
  surrounding whitespace, as header values arrive.
\<close>

definition stored_metadata :: "Record \<Rightarrow> bool" where
  "stored_metadata md =
     (distinct (map fst md)
      \<and> list_all (\<lambda>(k, v). byte_lowercase k = k \<and> normalize_value v = v) md)"

section \<open>A small world to run the handlers in\<close>

text \<open>
  A credential predicate that asks for one bearer token, two entries of the MIME table, a
  bucket holding the given objects, and a request for a path, a \<^verbatim>\<open>filename\<close> parameter
  and request headers.
\<close>

definition example_auth :: "Env \<Rightarrow> Request \<Rightarrow> bool" where
  "example_auth e r =
     (headers_get (headers r) (js ''authorization'') = Some (js ''Bearer secret''))"

definition example_getType :: "jsstring \<Rightarrow> jsstring option" where
  "example_getType key =
     (if endsWith key (js ''.json'') then Some (js ''application/json'')
      else if endsWith key (js ''.txt'') then Some (js ''text/plain'')
      else None)"

definition example_services :: "Storage Services" where
  "example_services = storage_services example_auth example_getType"

definition example_date :: Date where
  "example_date = \<lparr> toUTCString = js ''Tue, 03 Nov 2026 07:26:00 GMT'' \<rparr>"

definition example_object :: "Record \<Rightarrow> jsstring \<Rightarrow> StoredObject" where
  "example_object md ct =
     \<lparr> content = [0x68, 0x69], metadata = md, declared_type = ct,
       last_modified = example_date, entity_tag = js ''abc'' \<rparr>"

definition example_storage :: "(jsstring \<times> StoredObject) list \<Rightarrow> Storage" where
  "example_storage kvs =
     \<lparr> objects = (\<lambda>(bucket, key). if bucket = js ''files'' then map_of kvs key else None),
       now = example_date, fresh_tag = js ''def'' \<rparr>"

definition example_context :: "jsstring \<Rightarrow> jsstring \<Rightarrow> Headers \<Rightarrow> Context" where
  "example_context path name hs =
     \<lparr> request = \<lparr> url = \<lparr> pathname = path \<rparr>, headers = hs, body = Some [0x68, 0x6F] \<rparr>,
       env = \<lparr> BUCKET = js ''files'' \<rparr>,
       params = \<lparr> filename = name \<rparr> \<rparr>"

section \<open>Unfolding the definitions on concrete inputs\<close>

lemmas string_defs = js_def endsWith_def startsWith_def slice_def strip_leading_slashes_def
  ToString_def Number_toString.simps
lemmas decode_defs = decodeURIComponent_def and_then_def hex_digit_def leading_ones_def
  is_continuation_def UTF16EncodeCodePoint_def
lemmas headers_defs = headers_set_def headers_get_def is_ByteString_def is_header_name_def
  is_header_value_def is_tchar_def is_http_whitespace_def normalize_value_def
  byte_lowercase_def ascii_lower_def
lemmas handler_defs = path_onRequestGet_def onRequestGet_def onRequestPut_def
  onRequestPatch_def onRequestDelete_def key_of_filename_def build_headers_def
  contentType_of_def x_store_headers_def fromEntries_def new_Response_def not_found_def
  ok_def unauthorized_def
lemmas storage_defs = storage_services_def storage_get_def storage_put_def storage_copy_def
  storage_fetch_def copy_source_def
lemmas example_defs = example_services_def example_context_def example_storage_def
  example_auth_def example_getType_def example_object_def example_date_def
lemmas name_defs = js_def byte_lowercase_def ascii_lower_def
lemmas run = string_defs decode_defs headers_defs handler_defs storage_defs example_defs

section \<open>Facts about decoding\<close>

text \<open>
  A string without a percent sign decodes to itself; any other string that decodes at all
  gets shorter, since an escape of three code units gives one, and a sequence of two to
  four escapes gives at most two.
\<close>

lemma Decode_no_percent: "0x25 \<notin> set s \<Longrightarrow> Decode s = Inr s"
  by (induction s) (simp_all add: and_then_def)

lemma ParseHexOctet_length: "ParseHexOctet cs = Some B \<Longrightarrow> 2 \<le> length cs"
  by (cases cs rule: ParseHexOctet.cases) simp_all

lemma continuation_octets_consumes:
  "continuation_octets j s = Some (bs, rest) \<Longrightarrow> length rest + 3 * j \<le> length s"
proof (induction j s arbitrary: bs rest rule: continuation_octets.induct)
  case (1 s)
  then show ?case by simp
next
  case (2 j)
  then show ?case by simp
next
  case (3 j c cs)
  from "3.prems" obtain b bs' where
    c: "c = 0x25" and b: "ParseHexOctet cs = Some b"
    and r: "continuation_octets j (drop 2 cs) = Some (bs', rest)"
    by (auto split: if_splits option.splits)
  from "3.IH" [OF _ b r] c have "length rest + 3 * j \<le> length (drop 2 cs)" by simp
  moreover from b have "2 \<le> length cs" by (rule ParseHexOctet_length)
  ultimately show ?case by simp
qed

lemma UTF16EncodeCodePoint_length: "length (UTF16EncodeCodePoint V) \<le> 2"
  by (simp add: UTF16EncodeCodePoint_def)

lemma Decode_length:
  "Decode s = Inr t \<Longrightarrow> length t \<le> length s \<and> (0x25 \<in> set s \<longrightarrow> length t < length s)"
proof (induction s arbitrary: t rule: Decode.induct)
  case 1
  then show ?case by simp
next
  case (2 c cs)
  show ?case
  proof (cases "c = 0x25")
    case False
    with "2.prems" obtain R where R: "Decode cs = Inr R" and t: "t = c # R"
      by (auto simp: and_then_def split: sum.splits)
    from "2.IH"(1) [OF False R] t False show ?thesis by auto
  next
    case True
    with "2.prems" obtain B where B: "ParseHexOctet cs = Some B"
      by (auto split: option.splits)
    then have len: "2 \<le> length cs" by (rule ParseHexOctet_length)
    show ?thesis
    proof (cases "leading_ones B = 0")
      case z: True
      with "2.prems" True B obtain R where R: "Decode (drop 2 cs) = Inr R" and t: "t = of_nat B # R"
        by (auto simp: and_then_def split: sum.splits)
      from "2.IH"(2) [OF _ B z R] True have "length R \<le> length (drop 2 cs)" by simp
      with t len show ?thesis by auto
    next
      case nz: False
      with "2.prems" True B obtain Octets rest V R where
        n: "\<not> (leading_ones B = 1 \<or> 4 < leading_ones B)"
        and co: "continuation_octets (leading_ones B - 1) (drop 2 cs) = Some (Octets, rest)"
        and V: "utf8_code_point (B # Octets) = Some V"
        and R: "Decode rest = Inr R" and t: "t = UTF16EncodeCodePoint V @ R"
        by (auto simp: and_then_def split: sum.splits option.splits if_splits)
      from "2.IH"(3) [OF _ B nz n co refl V R] True have "length R \<le> length rest" by simp
      moreover from continuation_octets_consumes [OF co] nz n
      have "length rest + 3 \<le> length (drop 2 cs)" by (cases "leading_ones B - 1") auto
      moreover note UTF16EncodeCodePoint_length [of V]
      ultimately show ?thesis using t len by auto
    qed
  qed
qed

lemma endsWith_slash: "endsWith s (js ''/'') = (s \<noteq> [] \<and> last s = 0x2F)"
  by (cases s rule: rev_cases) (simp_all add: endsWith_def js_def)

lemma slice_butlast: "slice s 0 (- 1) = butlast s"
proof -
  have "nat (max (int (length s) - 1) 0) = length s - 1" by arith
  then show ?thesis by (simp add: slice_def Let_def butlast_conv_take)
qed

lemma key_of_filename_fixed:
  "(key_of_filename n = Inr n) = (0x25 \<notin> set n \<and> \<not> endsWith n (js ''/''))"
proof
  assume fx: "key_of_filename n = Inr n"
  then obtain d where d: "Decode n = Inr d"
    and n: "n = (if endsWith d (js ''/'') then slice d 0 (- 1) else d)"
    by (auto simp: key_of_filename_def decodeURIComponent_def and_then_def split: sum.splits)
  from n have "length n \<le> length d" by (simp add: slice_butlast split: if_splits)
  with Decode_length [OF d] have np: "0x25 \<notin> set n" by auto
  with d have "d = n" by (simp add: Decode_no_percent)
  have "\<not> endsWith n (js ''/'')"
  proof
    assume e: "endsWith n (js ''/'')"
    with n \<open>d = n\<close> have "n = butlast n" by (simp add: slice_butlast)
    then have "length n = length n - 1" by (metis length_butlast)
    moreover from e have "n \<noteq> []" by (simp add: endsWith_slash)
    ultimately show False by (cases n) simp_all
  qed
  with np show "0x25 \<notin> set n \<and> \<not> endsWith n (js ''/'')" by simp
next
  assume "0x25 \<notin> set n \<and> \<not> endsWith n (js ''/'')"
  then show "key_of_filename n = Inr n"
    by (simp add: key_of_filename_def decodeURIComponent_def Decode_no_percent and_then_def)
qed

section \<open>Facts about headers\<close>

text \<open>
  \<^verbatim>\<open>get\<close> after \<^verbatim>\<open>set\<close>: the header set reads as the normalised value, every other
  header as before. Setting the entries of stored metadata makes every entry readable
  under its name.
\<close>

lemma filter_header_list_set:
  "filter (\<lambda>h. fst h = m) (header_list_set hs n v)
   = (if m = n then [(n, v)] else filter (\<lambda>h. fst h = m) hs)"
proof (induction hs)
  case Nil
  then show ?case by simp
next
  case (Cons h hs)
  obtain n' x where h: "h = (n', x)" by (cases h)
  show ?case
  proof (cases "n' = n")
    case True
    have "filter (\<lambda>h. fst h = m) (filter (\<lambda>h. fst h \<noteq> n) hs)
          = (if m = n then [] else filter (\<lambda>h. fst h = m) hs)"
      by (induction hs) auto
    with True h show ?thesis by simp
  next
    case False
    with h Cons.IH show ?thesis by auto
  qed
qed

lemma headers_get_set:
  assumes "headers_set hs n v = Inr hs'"
  shows "headers_get hs' m
         = (if byte_lowercase m = byte_lowercase n then Some (normalize_value (ToString v))
            else headers_get hs m)"
proof -
  from assms have hs': "hs' = header_list_set hs (byte_lowercase n) (normalize_value (ToString v))"
    by (auto simp: headers_set_def Let_def split: if_splits)
  show ?thesis
    by (simp add: hs' headers_get_def filter_header_list_set)
qed

lemma headers_set_error: "headers_set hs n v = Inl e \<Longrightarrow> e = TypeError"
  by (auto simp: headers_set_def Let_def split: if_splits)

lemma set_entries_error: "set_entries hs md = Inl e \<Longrightarrow> e = TypeError"
proof (induction hs md rule: set_entries.induct)
  case (1 hs)
  then show ?case by simp
next
  case (2 hs key val entries)
  then show ?case
    by (cases "headers_set hs key (Some val)") (auto simp: and_then_def dest: headers_set_error)
qed

lemma headers_get_set_entries:
  assumes "set_entries hs md = Inr hs'" and "stored_metadata md"
  shows "headers_get hs' m
         = (case map_of md (byte_lowercase m) of None \<Rightarrow> headers_get hs m | Some v \<Rightarrow> Some v)"
  using assms
proof (induction hs md arbitrary: hs' rule: set_entries.induct)
  case (1 hs)
  then show ?case by simp
next
  case (2 hs key val entries)
  from "2.prems"(1) obtain h1 where
    h1: "headers_set hs key (Some val) = Inr h1" and r: "set_entries h1 entries = Inr hs'"
    by (auto simp: and_then_def split: sum.splits)
  from "2.prems"(2) have st: "stored_metadata entries" and k: "byte_lowercase key = key"
    and v: "normalize_value val = val" and fresh: "key \<notin> fst ` set entries"
    by (auto simp: stored_metadata_def)
  from fresh have none: "map_of entries key = None"
    by (simp add: map_of_eq_None_iff)
  from "2.IH" [OF r st]
  have "headers_get hs' m
        = (case map_of entries (byte_lowercase m) of None \<Rightarrow> headers_get h1 m | Some v \<Rightarrow> Some v)" .
  with headers_get_set [OF h1, of m] k v none show ?case
    by (auto simp: ToString_def split: option.splits)
qed

lemma headers_get_Nil: "headers_get [] m = None"
  by (simp add: headers_get_def)

lemma build_headers_error: "build_headers sv response key = Inl e \<Longrightarrow> e = TypeError"
  by (auto simp: build_headers_def and_then_def
      split: option.splits sum.splits if_splits
      dest: headers_set_error set_entries_error)

lemma build_headers_absent:
  "Metadata response = None \<or> ContentLength response = None \<or> LastModified response = None
   \<Longrightarrow> build_headers sv response key = Inl TypeError"
  by (cases "build_headers sv response key")
     (auto simp: build_headers_def and_then_def
      split: option.splits sum.splits if_splits
      dest: headers_set_error set_entries_error)


lemma build_headers_Inr:
  assumes "build_headers sv response key = Inr hs"
  obtains md n d h1 h2 h3 h4 h5 where
    "Metadata response = Some md" and "ContentLength response = Some n"
    and "LastModified response = Some d"
    and "set_entries [] md = Inr h1"
    and "headers_set h1 (js ''content-type'') (contentType_of (getType sv) response key) = Inr h2"
    and "(if map_of md (js ''x-store-type'') = Some (js ''text'')
          then headers_set h2 (js ''content-type'') (Some (js ''text/plain;charset=utf-8''))
          else Inr h2) = Inr h3"
    and "headers_set h3 (js ''content-length'') (Some (Number_toString n)) = Inr h4"
    and "headers_set h4 (js ''last-modified'') (Some (toUTCString d)) = Inr h5"
    and "headers_set h5 (js ''etag'') (ETag response) = Inr hs"
  using assms
  by (auto simp: build_headers_def and_then_def split: option.splits sum.splits)

lemma build_headers_visibility:
  assumes b: "build_headers sv response key = Inr hs"
    and md: "Metadata response = Some md" "stored_metadata md"
  shows "headers_get hs (js ''x-store-visibility'') = map_of md (js ''x-store-visibility'')"
proof -
  from b obtain md' n d h1 h2 h3 h4 h5 where
    m: "Metadata response = Some md'" and cl: "ContentLength response = Some n"
    and lm: "LastModified response = Some d"
    and s1: "set_entries [] md' = Inr h1"
    and s2: "headers_set h1 (js ''content-type'') (contentType_of (getType sv) response key) = Inr h2"
    and s3: "(if map_of md' (js ''x-store-type'') = Some (js ''text'')
          then headers_set h2 (js ''content-type'') (Some (js ''text/plain;charset=utf-8''))
          else Inr h2) = Inr h3"
    and s4: "headers_set h3 (js ''content-length'') (Some (Number_toString n)) = Inr h4"
    and s5: "headers_set h4 (js ''last-modified'') (Some (toUTCString d)) = Inr h5"
    and s6: "headers_set h5 (js ''etag'') (ETag response) = Inr hs"
    by (rule build_headers_Inr)
  let ?v = "js ''x-store-visibility''"
  from m md have [simp]: "md' = md" by simp
  have low: "byte_lowercase ?v = ?v" by (simp add: name_defs)
  from headers_get_set_entries [OF s1 [simplified] md(2), of ?v] low
  have g1: "headers_get h1 ?v = map_of md ?v"
    by (simp add: headers_get_Nil split: option.splits)
  from headers_get_set [OF s2, of ?v] have g2: "headers_get h2 ?v = headers_get h1 ?v"
    by (simp add: name_defs)
  from s3 have g3: "headers_get h3 ?v = headers_get h2 ?v"
    by (auto split: if_splits dest!: headers_get_set [where m = ?v] simp: name_defs)
  from headers_get_set [OF s4, of ?v] have g4: "headers_get h4 ?v = headers_get h3 ?v"
    by (simp add: name_defs)
  from headers_get_set [OF s5, of ?v] have g5: "headers_get h5 ?v = headers_get h4 ?v"
    by (simp add: name_defs)
  from headers_get_set [OF s6, of ?v] have g6: "headers_get hs ?v = headers_get h5 ?v"
    by (simp add: name_defs)
  from g1 g2 g3 g4 g5 g6 show ?thesis by simp
qed

lemma build_headers_content_type:
  assumes b: "build_headers sv response key = Inr hs"
    and md: "Metadata response = Some md"
  shows "headers_get hs (js ''content-type'')
         = Some (if map_of md (js ''x-store-type'') = Some (js ''text'')
                 then js ''text/plain;charset=utf-8''
                 else normalize_value (ToString (contentType_of (getType sv) response key)))"
proof -
  from b obtain md' n d h1 h2 h3 h4 h5 where
    m: "Metadata response = Some md'" and cl: "ContentLength response = Some n"
    and lm: "LastModified response = Some d"
    and s1: "set_entries [] md' = Inr h1"
    and s2: "headers_set h1 (js ''content-type'') (contentType_of (getType sv) response key) = Inr h2"
    and s3: "(if map_of md' (js ''x-store-type'') = Some (js ''text'')
          then headers_set h2 (js ''content-type'') (Some (js ''text/plain;charset=utf-8''))
          else Inr h2) = Inr h3"
    and s4: "headers_set h3 (js ''content-length'') (Some (Number_toString n)) = Inr h4"
    and s5: "headers_set h4 (js ''last-modified'') (Some (toUTCString d)) = Inr h5"
    and s6: "headers_set h5 (js ''etag'') (ETag response) = Inr hs"
    by (rule build_headers_Inr)
  let ?c = "js ''content-type''"
  from m md have [simp]: "md' = md" by simp
  have plain: "normalize_value (js ''text/plain;charset=utf-8'') = js ''text/plain;charset=utf-8''"
    by (simp add: js_def normalize_value_def is_http_whitespace_def)
  from headers_get_set [OF s2, of ?c]
  have g2: "headers_get h2 ?c
            = Some (normalize_value (ToString (contentType_of (getType sv) response key)))"
    by simp
  have g3: "headers_get h3 ?c
            = Some (if map_of md (js ''x-store-type'') = Some (js ''text'')
                    then js ''text/plain;charset=utf-8''
                    else normalize_value (ToString (contentType_of (getType sv) response key)))"
  proof (cases "map_of md (js ''x-store-type'') = Some (js ''text'')")
    case True
    with s3 have "headers_set h2 ?c (Some (js ''text/plain;charset=utf-8'')) = Inr h3" by simp
    from headers_get_set [OF this, of ?c] True plain show ?thesis by (simp add: ToString_def)
  next
    case False
    with s3 g2 show ?thesis by simp
  qed
  from headers_get_set [OF s4, of ?c] have g4: "headers_get h4 ?c = headers_get h3 ?c"
    by (simp add: name_defs)
  from headers_get_set [OF s5, of ?c] have g5: "headers_get h5 ?c = headers_get h4 ?c"
    by (simp add: name_defs)
  from headers_get_set [OF s6, of ?c] have g6: "headers_get hs ?c = headers_get h5 ?c"
    by (simp add: name_defs)
  from g3 g4 g5 g6 show ?thesis by simp
qed


lemma normalize_sentinel:
  "normalize_value (js ''application/octet-stream'') = js ''application/octet-stream''"
  by (simp add: js_def normalize_value_def is_http_whitespace_def)

lemma ToString_undefined: "normalize_value (ToString None) \<noteq> []"
  by (simp add: ToString_def js_def normalize_value_def is_http_whitespace_def)

lemma onRequestGet_served:
  assumes "key_of_filename (filename (params context)) = Inr key"
    and "send_GetObject sv (GetObjectCommand (BUCKET (env context)) key) st
         = (Inr response, st')"
    and "onRequestGet sv context st = (Inr r, st'')" and "status r = 200"
  obtains hs hs' data where "build_headers sv response key = Inr hs"
    and "headers_set hs (js ''content-disposition'')
           (Some (js ''inline; filename='' @ [0x22] @ key @ [0x22])) = Inr hs'"
    and "Body response = Some data"
    and "r = new_Response (Stream data) None hs'"
  using assms
  by (auto simp: onRequestGet_def not_found_def new_Response_def
      split: sum.splits if_splits option.splits)

lemma build_headers_ETag:
  "build_headers sv (response\<lparr>ETag := None\<rparr>) key
   = build_headers sv (response\<lparr>ETag := Some (js ''undefined'')\<rparr>) key"
proof -
  have e: "headers_set h (js ''etag'') None = headers_set h (js ''etag'') (Some (js ''undefined''))"
    for h
    by (simp add: headers_set_def ToString_def)
  show ?thesis
    by (simp add: build_headers_def contentType_of_def e cong: option.case_cong)
qed

section \<open>Facts about objects and the copy source\<close>

lemma object_set_fresh: "k \<notin> fst ` set obj \<Longrightarrow> object_set obj k v = obj @ [(k, v)]"
  by (induction obj) auto

lemma fold_object_set_distinct:
  "distinct (map fst (acc @ es))
   \<Longrightarrow> fold (\<lambda>(k, v) obj. object_set obj k v) es acc = acc @ es"
proof (induction es arbitrary: acc)
  case Nil
  then show ?case by simp
next
  case (Cons e es)
  obtain k v where e: "e = (k, v)" by (cases e)
  from Cons.prems e have "k \<notin> fst ` set acc" by auto
  then have s: "object_set acc k v = acc @ [(k, v)]" by (rule object_set_fresh)
  from Cons.prems e have "distinct (map fst ((acc @ [(k, v)]) @ es))" by simp
  from Cons.IH [OF this] s e show ?case by simp
qed

lemma fromEntries_distinct: "distinct (map fst es) \<Longrightarrow> fromEntries es = es"
  using fold_object_set_distinct [of "[]" es] by (simp add: fromEntries_def)

lemma copy_source_bucket: "0x2F \<notin> set b \<Longrightarrow> copy_source (b @ js ''/'' @ k) = (b, k)"
  by (induction b) (simp_all add: copy_source_def js_def)

section \<open>C1: the catch-all route decodes twice\<close>

text \<open>
  C1 asks that a path reaching the catch-all route is decoded once, so that it reads the
  key the \<^verbatim>\<open>filename\<close> route reads for the same raw name. The route decodes the
  path and hands the result to \<^verbatim>\<open>onRequestGet\<close>, which decodes it again. The bucket
  below holds a public object under the key \<open>docs/100%\<close> and one under
  \<open>docs/a%41\<close>. \<^verbatim>\<open>onRequestGet\<close> serves both for the raw names \<open>docs%2F100%25\<close>
  and \<open>docs%2Fa%2541\<close>; the catch-all route throws URIError for the paths
  \<open>/docs/100%25\<close> and \<open>/docs%2F100%25\<close>, and answers 404 for \<open>/docs/a%2541\<close>,
  having asked for the key \<open>docs/aA\<close>.
\<close>

theorem path_decodes_twice:
  "map_sum id status
     (fst (onRequestGet example_services
             (example_context (js ''/docs%2F100%25'') (js ''docs%2F100%25'') [])
             (example_storage [(js ''docs/100%'', example_object [(js ''x-store-visibility'', js ''public'')] (js ''text/plain'')), (js ''docs/a%41'', example_object [(js ''x-store-visibility'', js ''public'')] (js ''text/plain''))])))
   = Inr 200
   \<and> fst (path_onRequestGet example_services
             (example_context (js ''/docs%2F100%25'') [] [])
             (example_storage [(js ''docs/100%'', example_object [(js ''x-store-visibility'', js ''public'')] (js ''text/plain'')), (js ''docs/a%41'', example_object [(js ''x-store-visibility'', js ''public'')] (js ''text/plain''))]))
   = Inl URIError
   \<and> fst (path_onRequestGet example_services
             (example_context (js ''/docs/100%25'') [] [])
             (example_storage [(js ''docs/100%'', example_object [(js ''x-store-visibility'', js ''public'')] (js ''text/plain'')), (js ''docs/a%41'', example_object [(js ''x-store-visibility'', js ''public'')] (js ''text/plain''))]))
   = Inl URIError
   \<and> map_sum id status
     (fst (onRequestGet example_services
             (example_context (js ''/docs%2Fa%2541'') (js ''docs%2Fa%2541'') [])
             (example_storage [(js ''docs/100%'', example_object [(js ''x-store-visibility'', js ''public'')] (js ''text/plain'')), (js ''docs/a%41'', example_object [(js ''x-store-visibility'', js ''public'')] (js ''text/plain''))])))
   = Inr 200
   \<and> map_sum id status
     (fst (path_onRequestGet example_services
             (example_context (js ''/docs/a%2541'') [] [])
             (example_storage [(js ''docs/100%'', example_object [(js ''x-store-visibility'', js ''public'')] (js ''text/plain'')), (js ''docs/a%41'', example_object [(js ''x-store-visibility'', js ''public'')] (js ''text/plain''))])))
   = Inr 404"
  by (simp add: run)

section \<open>C2: the trailing slash is stripped by GET only\<close>

text \<open>
  C2 asks that PUT, PATCH and DELETE use the key GET uses. GET strips one trailing slash
  from the decoded name, the other three use the decoded name as it is. For the raw
  file name \<open>a%2F\<close> and a bucket holding an object under \<open>a\<close>, with credentials:
  GET serves the object \<open>a\<close>; PUT writes an object \<open>a/\<close> and leaves \<open>a\<close> as it
  was; PATCH fails, there being no object \<open>a/\<close>; DELETE answers OK and \<open>a\<close> is still
  there.
\<close>

theorem trailing_slash_only_on_get:
  "map_sum id status
     (fst (onRequestGet example_services (example_context (js ''/a%2F'') (js ''a%2F'') [(js ''authorization'', js ''Bearer secret'')])
        (example_storage [(js ''a'', example_object [(js ''x-store-visibility'', js ''public'')] (js ''text/plain''))])))
   = Inr 200
   \<and> fst (onRequestPut example_services (example_context (js ''/a%2F'') (js ''a%2F'') [(js ''authorization'', js ''Bearer secret'')])
        (example_storage [(js ''a'', example_object [(js ''x-store-visibility'', js ''public'')] (js ''text/plain''))]))
   = Inr ok
   \<and> map_option content
       (objects (snd (onRequestPut example_services
                       (example_context (js ''/a%2F'') (js ''a%2F'') [(js ''authorization'', js ''Bearer secret'')])
                       (example_storage [(js ''a'', example_object [(js ''x-store-visibility'', js ''public'')] (js ''text/plain''))])))
          (js ''files'', js ''a/''))
   = Some [0x68, 0x6F]
   \<and> objects (snd (onRequestPut example_services
                     (example_context (js ''/a%2F'') (js ''a%2F'') [(js ''authorization'', js ''Bearer secret'')])
                     (example_storage [(js ''a'', example_object [(js ''x-store-visibility'', js ''public'')] (js ''text/plain''))])))
        (js ''files'', js ''a'')
   = Some (example_object [(js ''x-store-visibility'', js ''public'')] (js ''text/plain''))
   \<and> fst (onRequestPatch example_services (example_context (js ''/a%2F'') (js ''a%2F'') [(js ''authorization'', js ''Bearer secret'')])
        (example_storage [(js ''a'', example_object [(js ''x-store-visibility'', js ''public'')] (js ''text/plain''))]))
   = Inl (StorageError NoSuchKey)
   \<and> fst (onRequestDelete example_services (example_context (js ''/a%2F'') (js ''a%2F'') [(js ''authorization'', js ''Bearer secret'')])
        (example_storage [(js ''a'', example_object [(js ''x-store-visibility'', js ''public'')] (js ''text/plain''))]))
   = Inr ok
   \<and> objects (snd (onRequestDelete example_services
                     (example_context (js ''/a%2F'') (js ''a%2F'') [(js ''authorization'', js ''Bearer secret'')])
                     (example_storage [(js ''a'', example_object [(js ''x-store-visibility'', js ''public'')] (js ''text/plain''))])))
        (js ''files'', js ''a'')
   = Some (example_object [(js ''x-store-visibility'', js ''public'')] (js ''text/plain''))"
  by (simp add: run)

section \<open>C3: the gate on reads\<close>

text \<open>
  C3. Take a GET whose object the storage returns, with metadata as the client delivers
  it, and whose headers are built without an exception. If the metadata entry
  \<open>x-store-visibility\<close> is \<open>public\<close>, the object is served with status 200 whatever
  the credential predicate says; otherwise it is served exactly when the predicate
  holds, and a denied request is answered 404 with the body "Not found", not with the
  object and not with another status.
\<close>

theorem read_gate:
  assumes k: "key_of_filename (filename (params context)) = Inr key"
    and g: "send_GetObject sv (GetObjectCommand (BUCKET (env context)) key) st
            = (Inr response, st')"
    and md: "Metadata response = Some md" "stored_metadata md"
    and b: "build_headers sv response key = Inr hs"
    and cd: "headers_set hs (js ''content-disposition'')
               (Some (js ''inline; filename='' @ [0x22] @ key @ [0x22])) = Inr hs'"
    and body: "Body response = Some data"
  shows "onRequestGet sv context st
         = (if map_of md (js ''x-store-visibility'') = Some (js ''public'')
               \<or> auth sv (env context) (request context)
            then (Inr (new_Response (Stream data) None hs'), st')
            else (Inr not_found, st'))
       \<and> status (new_Response (Stream data) None hs') = 200
       \<and> response_body (new_Response (Stream data) None hs') = Stream data
       \<and> status not_found = 404
       \<and> response_body not_found = Text (js ''Not found'')"
proof -
  from build_headers_visibility [OF b md]
  have v: "headers_get hs (js ''x-store-visibility'') = map_of md (js ''x-store-visibility'')" .
  show ?thesis
    using k g b cd body
    by (auto simp: onRequestGet_def v new_Response_def not_found_def)
qed

text \<open>
  The theorem at a request without credentials, once for a public object, which is
  served, and once for a private one, which is not.
\<close>

theorem read_gate_witness:
  "\<not> auth example_services (env (example_context (js ''/a.txt'') (js ''a.txt'') []))
       (request (example_context (js ''/a.txt'') (js ''a.txt'') []))
   \<and> map_sum id status
        (fst (onRequestGet example_services (example_context (js ''/a.txt'') (js ''a.txt'') [])
           (example_storage
              [(js ''a.txt'',
                example_object [(js ''x-store-visibility'', js ''public'')] (js ''text/plain''))])))
       = Inr 200
   \<and> map_sum id response_body
        (fst (onRequestGet example_services (example_context (js ''/a.txt'') (js ''a.txt'') [])
           (example_storage
              [(js ''a.txt'',
                example_object [(js ''x-store-visibility'', js ''public'')] (js ''text/plain''))])))
       = Inr (Stream [0x68, 0x69])
   \<and> onRequestGet example_services (example_context (js ''/a.txt'') (js ''a.txt'') [])
        (example_storage
           [(js ''a.txt'',
             example_object [(js ''x-store-visibility'', js ''private'')] (js ''text/plain''))])
       = (Inr not_found,
          example_storage
           [(js ''a.txt'',
             example_object [(js ''x-store-visibility'', js ''private'')] (js ''text/plain''))])
   \<and> status not_found = 404"
proof -
  let ?c = "example_context (js ''/a.txt'') (js ''a.txt'') []"
  let ?pub = "[(js ''x-store-visibility'', js ''public'')]"
  let ?prv = "[(js ''x-store-visibility'', js ''private'')]"
  let ?st = "\<lambda>md. example_storage [(js ''a.txt'', example_object md (js ''text/plain''))]"
  let ?out = "\<lambda>md. \<lparr> Body = Some [0x68, 0x69], Metadata = Some md,
       ContentType = Some (js ''text/plain''), ContentLength = Some 2,
       LastModified = Some example_date, ETag = Some (js ''abc'') \<rparr>"
  have a: "\<not> auth example_services (env ?c) (request ?c)"
    by (simp add: run)
  have k: "key_of_filename (filename (params ?c)) = Inr (js ''a.txt'')"
    by (simp add: run)
  have g: "send_GetObject example_services (GetObjectCommand (BUCKET (env ?c)) (js ''a.txt'')) (?st md)
           = (Inr (?out md), ?st md)" for md
    by (simp add: run)
  have m: "Metadata (?out md) = Some md" and bd: "Body (?out md) = Some [0x68, 0x69]" for md
    by simp_all
  have s: "stored_metadata ?pub" "stored_metadata ?prv"
    by (simp_all add: stored_metadata_def run)
  obtain h1 where b1: "build_headers example_services (?out ?pub) (js ''a.txt'') = Inr h1"
    by (simp add: run)
  obtain h1' where c1: "headers_set h1 (js ''content-disposition'')
               (Some (js ''inline; filename='' @ [0x22] @ js ''a.txt'' @ [0x22])) = Inr h1'"
    using b1 by (auto simp: run)
  obtain h2 where b2: "build_headers example_services (?out ?prv) (js ''a.txt'') = Inr h2"
    by (simp add: run)
  obtain h2' where c2: "headers_set h2 (js ''content-disposition'')
               (Some (js ''inline; filename='' @ [0x22] @ js ''a.txt'' @ [0x22])) = Inr h2'"
    using b2 by (auto simp: run)
  have p: "map_of ?pub (js ''x-store-visibility'') = Some (js ''public'')"
    "map_of ?prv (js ''x-store-visibility'') \<noteq> Some (js ''public'')"
    by (simp_all add: js_def)
  from read_gate [OF k g m s(1) b1 c1 bd] read_gate [OF k g m s(2) b2 c2 bd] a p
  show ?thesis by simp
qed


section \<open>C4: mutating requests without credentials\<close>

text \<open>
  C4. A PUT, PATCH or DELETE request on which the credential predicate \<^verbatim>\<open>auth\<close> is
  false is answered 401 "Unauthorized" and leaves the state of the storage as it was,
  whatever the storage client does when it is called and whatever the storage holds
  (so also whatever the visibility metadata of the target object): no storage operation
  is issued.
\<close>

theorem unauthorized_mutation_touches_nothing:
  assumes "\<not> auth sv (env context) (request context)"
  shows "onRequestPut sv context st = (Inr unauthorized, st)
       \<and> onRequestPatch sv context st = (Inr unauthorized, st)
       \<and> onRequestDelete sv context st = (Inr unauthorized, st)
       \<and> status unauthorized = 401
       \<and> response_body unauthorized = Text (js ''Unauthorized'')"
  using assms
  by (simp add: onRequestPut_def onRequestPatch_def onRequestDelete_def
      unauthorized_def new_Response_def)

text \<open>
  The theorem at a request without credentials for a public object of the example
  bucket.
\<close>

theorem unauthorized_mutation_touches_nothing_witness:
  "\<not> auth example_services (env (example_context (js ''/a.txt'') (js ''a.txt'') []))
       (request (example_context (js ''/a.txt'') (js ''a.txt'') []))
   \<and> onRequestPut example_services (example_context (js ''/a.txt'') (js ''a.txt'') [])
       (example_storage
          [(js ''a.txt'',
            example_object [(js ''x-store-visibility'', js ''public'')] (js ''text/plain''))])
     = (Inr unauthorized,
        example_storage
          [(js ''a.txt'',
            example_object [(js ''x-store-visibility'', js ''public'')] (js ''text/plain''))])
   \<and> onRequestPatch example_services (example_context (js ''/a.txt'') (js ''a.txt'') [])
       (example_storage
          [(js ''a.txt'',
            example_object [(js ''x-store-visibility'', js ''public'')] (js ''text/plain''))])
     = (Inr unauthorized,
        example_storage
          [(js ''a.txt'',
            example_object [(js ''x-store-visibility'', js ''public'')] (js ''text/plain''))])
   \<and> onRequestDelete example_services (example_context (js ''/a.txt'') (js ''a.txt'') [])
       (example_storage
          [(js ''a.txt'',
            example_object [(js ''x-store-visibility'', js ''public'')] (js ''text/plain''))])
     = (Inr unauthorized,
        example_storage
          [(js ''a.txt'',
            example_object [(js ''x-store-visibility'', js ''public'')] (js ''text/plain''))])
   \<and> status unauthorized = 401"
proof -
  have h: "\<not> auth example_services (env (example_context (js ''/a.txt'') (js ''a.txt'') []))
       (request (example_context (js ''/a.txt'') (js ''a.txt'') []))"
    by (simp add: example_services_def storage_services_def example_auth_def
        example_context_def headers_get_def)
  from unauthorized_mutation_touches_nothing [OF h] h show ?thesis by simp
qed

section \<open>C5: normalising a key twice\<close>

text \<open>
  C5, as the code has it. Normalising a key a second time gives the same result as
  normalising it once exactly when the first normalisation throws (and so does the
  second) or its result has no percent sign and does not end in a slash. A result with
  a percent sign is decoded again or rejected, and a result ending in a slash loses it.
\<close>

theorem renormalize_iff:
  "(and_then (key_of_filename k) key_of_filename = key_of_filename k)
   = (case key_of_filename k of
        Inl e \<Rightarrow> True
      | Inr n \<Rightarrow> 0x25 \<notin> set n \<and> \<not> endsWith n (js ''/''))"
  by (cases "key_of_filename k") (simp_all add: and_then_def key_of_filename_fixed)

text \<open>The theorem at \<open>a%2Fb/\<close>, whose key \<open>a/b\<close> is normalised to itself.\<close>

theorem renormalize_iff_witness:
  "key_of_filename (js ''a%2Fb/'') = Inr (js ''a/b'')
   \<and> and_then (key_of_filename (js ''a%2Fb/'')) key_of_filename = key_of_filename (js ''a%2Fb/'')"
proof -
  have k: "key_of_filename (js ''a%2Fb/'') = Inr (js ''a/b'')"
    by (simp add: run)
  have "0x25 \<notin> set (js ''a/b'') \<and> \<not> endsWith (js ''a/b'') (js ''/'')"
    by (simp add: string_defs)
  with renormalize_iff [of "js ''a%2Fb/''"] k show ?thesis by simp
qed

text \<open>
  As the claim C5 states it, idempotence fails: \<open>%2525\<close> is normalised to \<open>%25\<close> and
  that to \<open>%\<close>; \<open>a//\<close> is normalised to \<open>a/\<close> and that to \<open>a\<close>.
\<close>

theorem renormalize_counterexample:
  "key_of_filename (js ''%2525'') = Inr (js ''%25'')
   \<and> and_then (key_of_filename (js ''%2525'')) key_of_filename = Inr (js ''%'')
   \<and> and_then (key_of_filename (js ''%2525'')) key_of_filename \<noteq> key_of_filename (js ''%2525'')
   \<and> key_of_filename (js ''a//'') = Inr (js ''a/'')
   \<and> and_then (key_of_filename (js ''a//'')) key_of_filename = Inr (js ''a'')"
  by (simp add: run)

section \<open>C6: the content type of a served object\<close>

text \<open>
  C6, as the code has it. The \<open>content-type\<close> header of a served object is the UTF-8
  plain-text type when the metadata entry \<open>x-store-type\<close> is \<open>text\<close>; otherwise, when
  the stored content type is \<open>application/octet-stream\<close>, it is the entry of the MIME
  table for the key, or \<open>application/octet-stream\<close> when there is none; otherwise it is
  the stored content type, without surrounding whitespace (and \<open>undefined\<close> spelt
  out when the storage gave none). It is not empty provided the stored content type and
  the table's entry are not blank: a stored type that is empty is passed on as it is.
\<close>

theorem content_type_resolution:
  assumes k: "key_of_filename (filename (params context)) = Inr key"
    and g: "send_GetObject sv (GetObjectCommand (BUCKET (env context)) key) st
            = (Inr response, st')"
    and md: "Metadata response = Some md"
    and r: "onRequestGet sv context st = (Inr r, st'')" "status r = 200"
  shows "headers_get (response_headers r) (js ''content-type'')
         = Some (if map_of md (js ''x-store-type'') = Some (js ''text'')
                 then js ''text/plain;charset=utf-8''
                 else if ContentType response = Some (js ''application/octet-stream'')
                 then (case getType sv key of
                         None \<Rightarrow> js ''application/octet-stream''
                       | Some t \<Rightarrow> if t = [] then js ''application/octet-stream''
                                   else normalize_value t)
                 else normalize_value (ToString (ContentType response)))
       \<and> ((\<forall>t. getType sv key = Some t \<longrightarrow> t = [] \<or> normalize_value t \<noteq> [])
            \<and> (\<forall>ct. ContentType response = Some ct \<longrightarrow> normalize_value ct \<noteq> [])
          \<longrightarrow> headers_get (response_headers r) (js ''content-type'') \<noteq> Some [])"
proof -
  from k g r obtain hs hs' data where b: "build_headers sv response key = Inr hs"
    and cd: "headers_set hs (js ''content-disposition'')
           (Some (js ''inline; filename='' @ [0x22] @ key @ [0x22])) = Inr hs'"
    and resp: "r = new_Response (Stream data) None hs'"
    by (rule onRequestGet_served)
  from headers_get_set [OF cd, of "js ''content-type''"]
  have "headers_get hs' (js ''content-type'') = headers_get hs (js ''content-type'')"
    by (simp add: name_defs)
  with resp have rh: "headers_get (response_headers r) (js ''content-type'')
                      = headers_get hs (js ''content-type'')"
    by (simp add: new_Response_def)
  have c: "headers_get (response_headers r) (js ''content-type'')
         = Some (if map_of md (js ''x-store-type'') = Some (js ''text'')
                 then js ''text/plain;charset=utf-8''
                 else if ContentType response = Some (js ''application/octet-stream'')
                 then (case getType sv key of
                         None \<Rightarrow> js ''application/octet-stream''
                       | Some t \<Rightarrow> if t = [] then js ''application/octet-stream''
                                   else normalize_value t)
                 else normalize_value (ToString (ContentType response)))"
    by (simp add: rh build_headers_content_type [OF b md] contentType_of_def ToString_def
        normalize_sentinel split: option.splits)
  have ne: "js ''text/plain;charset=utf-8'' \<noteq> []" "js ''application/octet-stream'' \<noteq> []"
    by (simp_all add: js_def)
  have "headers_get (response_headers r) (js ''content-type'') \<noteq> Some []"
    if t: "\<forall>t. getType sv key = Some t \<longrightarrow> t = [] \<or> normalize_value t \<noteq> []"
      and ct: "\<forall>ct. ContentType response = Some ct \<longrightarrow> normalize_value ct \<noteq> []"
  proof (cases "ContentType response")
    case None
    with c ne ToString_undefined show ?thesis by (auto split: option.splits)
  next
    case (Some x)
    with ct have "normalize_value x \<noteq> []" by simp
    with c ne t Some show ?thesis by (auto simp: ToString_def split: option.splits)
  qed
  with c show ?thesis by blast
qed

text \<open>
  The theorem at \<open>d.json\<close> stored with the generic type: the table's JSON type, and
  plain text once the object is marked \<open>text\<close>.
\<close>

theorem content_type_resolution_witness:
  "map_sum id (\<lambda>r. headers_get (response_headers r) (js ''content-type''))
     (fst (onRequestGet example_services
             (example_context (js ''/d.json'') (js ''d.json'') [(js ''authorization'', js ''Bearer secret'')])
             (example_storage
                [(js ''d.json'', example_object [] (js ''application/octet-stream''))])))
   = Inr (Some (js ''application/json''))
   \<and> map_sum id (\<lambda>r. headers_get (response_headers r) (js ''content-type''))
     (fst (onRequestGet example_services
             (example_context (js ''/d.json'') (js ''d.json'') [(js ''authorization'', js ''Bearer secret'')])
             (example_storage
                [(js ''d.json'',
                  example_object [(js ''x-store-type'', js ''text'')]
                    (js ''application/octet-stream''))])))
   = Inr (Some (js ''text/plain;charset=utf-8''))"
proof -
  let ?c = "example_context (js ''/d.json'') (js ''d.json'') [(js ''authorization'', js ''Bearer secret'')]"
  let ?text = "[(js ''x-store-type'', js ''text'')]"
  let ?st = "\<lambda>md. example_storage
                [(js ''d.json'', example_object md (js ''application/octet-stream''))]"
  let ?out = "\<lambda>md. \<lparr> Body = Some [0x68, 0x69], Metadata = Some md,
       ContentType = Some (js ''application/octet-stream''), ContentLength = Some 2,
       LastModified = Some example_date, ETag = Some (js ''abc'') \<rparr>"
  have k: "key_of_filename (filename (params ?c)) = Inr (js ''d.json'')"
    by (simp add: run)
  have g: "send_GetObject example_services
             (GetObjectCommand (BUCKET (env ?c)) (js ''d.json'')) (?st md)
           = (Inr (?out md), ?st md)" for md
    by (simp add: run)
  have m: "Metadata (?out md) = Some md" for md
    by simp
  obtain r1 where r1: "onRequestGet example_services ?c (?st []) = (Inr r1, ?st [])"
    "status r1 = 200"
    by (simp add: run)
  obtain r2 where r2: "onRequestGet example_services ?c (?st ?text) = (Inr r2, ?st ?text)"
    "status r2 = 200"
    by (simp add: run)
  have t: "getType example_services (js ''d.json'') = Some (js ''application/json'')"
    by (simp add: run)
  have n: "normalize_value (js ''application/json'') = js ''application/json''"
    by (simp add: js_def normalize_value_def is_http_whitespace_def)
  have x: "map_of [] (js ''x-store-type'') \<noteq> Some (js ''text'')"
     "map_of ?text (js ''x-store-type'') = Some (js ''text'')" "js ''application/json'' \<noteq> []"
    by (simp_all add: js_def)
  from content_type_resolution [OF k g m r1] content_type_resolution [OF k g m r2] r1 r2 t n x
  show ?thesis by simp
qed

text \<open>
  As the claim C6 states it, the result is never empty; an object stored with the empty
  content type is served with an empty \<open>content-type\<close> header.
\<close>

theorem content_type_empty_counterexample:
  "map_sum id (\<lambda>r. (status r, headers_get (response_headers r) (js ''content-type'')))
     (fst (onRequestGet example_services (example_context (js ''/d.json'') (js ''d.json'') [(js ''authorization'', js ''Bearer secret'')])
         (example_storage [(js ''d.json'', example_object [] [])])))
   = Inr (200, Some [])"
  by (simp add: run)


section \<open>C7: reads that the storage fails\<close>

text \<open>
  C7. When the storage client rejects the \<^verbatim>\<open>GetObjectCommand\<close> of a GET, with whatever
  exception (the object is absent, or any other failure), the handler answers 404
  "Not found": the exception is caught and not told apart.
\<close>

theorem get_storage_failure_is_not_found:
  assumes "key_of_filename (filename (params context)) = Inr key"
    and "send_GetObject sv (GetObjectCommand (BUCKET (env context)) key) st = (Inl e, st')"
  shows "onRequestGet sv context st = (Inr not_found, st')
       \<and> status not_found = 404
       \<and> response_body not_found = Text (js ''Not found'')"
  using assms by (simp add: onRequestGet_def not_found_def new_Response_def)

text \<open>
  The theorem at a key the example bucket does not hold, and at a client that fails with
  a service error.
\<close>

theorem get_storage_failure_is_not_found_witness:
  "key_of_filename (filename (params (example_context (js ''/gone.txt'') (js ''gone.txt'') [])))
     = Inr (js ''gone.txt'')
   \<and> send_GetObject example_services
        (GetObjectCommand (BUCKET (env (example_context (js ''/gone.txt'') (js ''gone.txt'') [])))
           (js ''gone.txt''))
        (example_storage []) = (Inl (StorageError NoSuchKey), example_storage [])
   \<and> onRequestGet example_services (example_context (js ''/gone.txt'') (js ''gone.txt'') [])
        (example_storage []) = (Inr not_found, example_storage [])
   \<and> send_GetObject
        (example_services\<lparr>send_GetObject := \<lambda>cmd st. (Inl (StorageError (ServiceFailure 503)), st)\<rparr>)
        (GetObjectCommand (BUCKET (env (example_context (js ''/gone.txt'') (js ''gone.txt'') [])))
           (js ''gone.txt''))
        (example_storage []) = (Inl (StorageError (ServiceFailure 503)), example_storage [])
   \<and> onRequestGet
        (example_services\<lparr>send_GetObject := \<lambda>cmd st. (Inl (StorageError (ServiceFailure 503)), st)\<rparr>)
        (example_context (js ''/gone.txt'') (js ''gone.txt'') [])
        (example_storage []) = (Inr not_found, example_storage [])
   \<and> status not_found = 404"
proof -
  let ?c = "example_context (js ''/gone.txt'') (js ''gone.txt'') []"
  let ?sv = "example_services\<lparr>send_GetObject := \<lambda>cmd st. (Inl (StorageError (ServiceFailure 503)), st)\<rparr>"
  have k: "key_of_filename (filename (params ?c)) = Inr (js ''gone.txt'')"
    by (simp add: run)
  have a: "send_GetObject example_services (GetObjectCommand (BUCKET (env ?c)) (js ''gone.txt''))
        (example_storage []) = (Inl (StorageError NoSuchKey), example_storage [])"
    by (simp add: example_services_def storage_defs example_storage_def)
  have b: "send_GetObject ?sv (GetObjectCommand (BUCKET (env ?c)) (js ''gone.txt''))
        (example_storage []) = (Inl (StorageError (ServiceFailure 503)), example_storage [])"
    by simp
  from get_storage_failure_is_not_found [OF k a] get_storage_failure_is_not_found [OF k b] k a b
  show ?thesis by simp
qed

text \<open>
  No other failure response comes from the read handler: a response it returns is the
  404 above or the object with status 200. (A malformed escape in the name and a field
  missing from the storage's output are exceptions, not responses of the handler.)
\<close>

lemma onRequestGet_answers:
  assumes "onRequestGet sv context st = (Inr r, st')"
  shows "r = not_found \<or> status r = 200"
  using assms
  by (auto simp: onRequestGet_def new_Response_def
      split: sum.splits prod.splits if_splits option.splits)

section \<open>C8: PATCH replaces the metadata\<close>

text \<open>
  C8. An authorized PATCH of a decodable file name, run against the storage of the
  specification in a bucket whose name has no slash: when the bucket holds no object
  under the key, the handler throws the storage's exception and the storage is as it
  was, nothing being created; when it holds one, the handler answers 200 "OK" and the
  object's metadata is exactly the request's headers named \<open>x-store-...\<close>, none
  of the old entries kept, while its content and every other object are as before.
\<close>

theorem patch_replaces_metadata:
  assumes a: "a (env context) (request context)"
    and k: "decodeURIComponent (filename (params context)) = Inr key"
    and b: "0x2F \<notin> set (BUCKET (env context))"
    and d: "distinct (map fst (headers (request context)))"
  shows "onRequestPatch (storage_services a m) context st
         = (case objects st (BUCKET (env context), key) of
              None \<Rightarrow> (Inl (StorageError NoSuchKey), st)
            | Some obj \<Rightarrow>
                (Inr ok,
                 st\<lparr>objects := (objects st)((BUCKET (env context), key) \<mapsto>
                      obj\<lparr>metadata :=
                            filter (\<lambda>(name, val). startsWith name (js ''x-store-''))
                              (headers (request context))\<rparr>)\<rparr>))
       \<and> status ok = 200"
proof -
  from d have "distinct (map fst (x_store_headers (headers (request context))))"
    by (simp add: x_store_headers_def distinct_map_filter)
  then have f: "fromEntries (x_store_headers (headers (request context)))
                = filter (\<lambda>(name, val). startsWith name (js ''x-store-'')) (headers (request context))"
    by (simp add: fromEntries_distinct) (simp add: x_store_headers_def)
  show ?thesis
    using a k
    by (simp add: onRequestPatch_def storage_services_def storage_copy_def
        copy_source_bucket [OF b] f ok_def new_Response_def split: option.splits)
qed

text \<open>
  The theorem at an object with the metadata \<open>x-store-a\<close> and \<open>x-store-b\<close>, patched
  with \<open>x-store-c\<close>, and at a key the bucket does not hold.
\<close>

theorem patch_replaces_metadata_witness:
  "fst (onRequestPatch example_services
          (example_context (js ''/a.txt'') (js ''a.txt'')
             [(js ''authorization'', js ''Bearer secret''), (js ''x-store-c'', js ''3'')])
          (example_storage
             [(js ''a.txt'',
               example_object [(js ''x-store-a'', js ''1''), (js ''x-store-b'', js ''2'')]
                 (js ''text/plain''))]))
   = Inr ok
   \<and> map_option metadata
       (objects (snd (onRequestPatch example_services
          (example_context (js ''/a.txt'') (js ''a.txt'')
             [(js ''authorization'', js ''Bearer secret''), (js ''x-store-c'', js ''3'')])
          (example_storage
             [(js ''a.txt'',
               example_object [(js ''x-store-a'', js ''1''), (js ''x-store-b'', js ''2'')]
                 (js ''text/plain''))])))
          (js ''files'', js ''a.txt''))
   = Some [(js ''x-store-c'', js ''3'')]
   \<and> map_option content
       (objects (snd (onRequestPatch example_services
          (example_context (js ''/a.txt'') (js ''a.txt'')
             [(js ''authorization'', js ''Bearer secret''), (js ''x-store-c'', js ''3'')])
          (example_storage
             [(js ''a.txt'',
               example_object [(js ''x-store-a'', js ''1''), (js ''x-store-b'', js ''2'')]
                 (js ''text/plain''))])))
          (js ''files'', js ''a.txt''))
   = Some [0x68, 0x69]
   \<and> onRequestPatch example_services
          (example_context (js ''/a.txt'') (js ''a.txt'')
             [(js ''authorization'', js ''Bearer secret''), (js ''x-store-c'', js ''3'')])
          (example_storage [])
   = (Inl (StorageError NoSuchKey), example_storage [])"
proof -
  let ?c = "example_context (js ''/a.txt'') (js ''a.txt'')
             [(js ''authorization'', js ''Bearer secret''), (js ''x-store-c'', js ''3'')]"
  let ?st = "example_storage
             [(js ''a.txt'',
               example_object [(js ''x-store-a'', js ''1''), (js ''x-store-b'', js ''2'')]
                 (js ''text/plain''))]"
  have a: "example_auth (env ?c) (request ?c)"
    by (simp add: run)
  have k: "decodeURIComponent (filename (params ?c)) = Inr (js ''a.txt'')"
    by (simp add: run)
  have b: "0x2F \<notin> set (BUCKET (env ?c))"
    by (simp add: example_context_def js_def)
  have d: "distinct (map fst (headers (request ?c)))"
    by (simp add: example_context_def js_def)
  have f: "filter (\<lambda>(name, val). startsWith name (js ''x-store-'')) (headers (request ?c))
           = [(js ''x-store-c'', js ''3'')]"
    by (simp add: example_context_def js_def startsWith_def)
  have o: "objects ?st (js ''files'', js ''a.txt'')
           = Some (example_object [(js ''x-store-a'', js ''1''), (js ''x-store-b'', js ''2'')]
                     (js ''text/plain''))"
    "objects (example_storage []) (js ''files'', js ''a.txt'') = None"
    by (simp_all add: example_storage_def)
  have e: "content (example_object md ct) = [0x68, 0x69]" for md ct
    by (simp add: example_object_def)
  have bk: "BUCKET (env ?c) = js ''files''"
    by (simp add: example_context_def)
  from patch_replaces_metadata [of example_auth ?c "js ''a.txt''" example_getType ?st, OF a k b d]
    patch_replaces_metadata
      [of example_auth ?c "js ''a.txt''" example_getType "example_storage []", OF a k b d]
  show ?thesis
    by (simp add: example_services_def f o e bk)
qed

section \<open>C9: the reply to the presigned delete\<close>

text \<open>
  C9. When the credential predicate passes and the \<^verbatim>\<open>fetch\<close> of the presigned URL
  resolves, DELETE answers 200 "OK" whatever status the reply carries: the reply is not
  read.
\<close>

theorem delete_never_reads_the_reply:
  assumes "auth sv (env context) (request context)"
    and "decodeURIComponent (filename (params context)) = Inr key"
    and "getSignedUrl sv (DeleteObjectCommand (BUCKET (env context)) key) 3600 = Inr u"
    and "fetch sv u (js ''DELETE'') st = (Inr reply, st')"
  shows "onRequestDelete sv context st = (Inr ok, st')
       \<and> status ok = 200
       \<and> response_body ok = Text (js ''OK'')"
  using assms by (simp add: onRequestDelete_def ok_def new_Response_def)

text \<open>The theorem at a storage that replies 500 and keeps the object.\<close>

theorem delete_never_reads_the_reply_witness:
  "auth (example_services\<lparr>fetch := \<lambda>u method st. (Inr 500, st)\<rparr>)
     (env (example_context (js ''/a.txt'') (js ''a.txt'') [(js ''authorization'', js ''Bearer secret'')]))
     (request (example_context (js ''/a.txt'') (js ''a.txt'') [(js ''authorization'', js ''Bearer secret'')]))
   \<and> decodeURIComponent (filename (params
         (example_context (js ''/a.txt'') (js ''a.txt'') [(js ''authorization'', js ''Bearer secret'')])))
       = Inr (js ''a.txt'')
   \<and> getSignedUrl (example_services\<lparr>fetch := \<lambda>u method st. (Inr 500, st)\<rparr>)
        (DeleteObjectCommand (js ''files'') (js ''a.txt'')) 3600
       = Inr (SignedUrl (DeleteObjectCommand (js ''files'') (js ''a.txt'')) 3600)
   \<and> fetch (example_services\<lparr>fetch := \<lambda>u method st. (Inr 500, st)\<rparr>)
        (SignedUrl (DeleteObjectCommand (js ''files'') (js ''a.txt'')) 3600) (js ''DELETE'')
        (example_storage [(js ''a.txt'', example_object [] (js ''text/plain''))])
       = (Inr 500, example_storage [(js ''a.txt'', example_object [] (js ''text/plain''))])
   \<and> onRequestDelete (example_services\<lparr>fetch := \<lambda>u method st. (Inr 500, st)\<rparr>)
        (example_context (js ''/a.txt'') (js ''a.txt'') [(js ''authorization'', js ''Bearer secret'')])
        (example_storage [(js ''a.txt'', example_object [] (js ''text/plain''))])
       = (Inr ok, example_storage [(js ''a.txt'', example_object [] (js ''text/plain''))])
   \<and> status ok = 200"
proof -
  let ?sv = "example_services\<lparr>fetch := \<lambda>u method st. (Inr 500, st)\<rparr>"
  let ?c = "example_context (js ''/a.txt'') (js ''a.txt'') [(js ''authorization'', js ''Bearer secret'')]"
  let ?st = "example_storage [(js ''a.txt'', example_object [] (js ''text/plain''))]"
  let ?u = "SignedUrl (DeleteObjectCommand (js ''files'') (js ''a.txt'')) 3600"
  have a: "auth ?sv (env ?c) (request ?c)"
    by (simp add: run)
  have k: "decodeURIComponent (filename (params ?c)) = Inr (js ''a.txt'')"
    by (simp add: run)
  have b: "BUCKET (env ?c) = js ''files''"
    by (simp add: example_context_def)
  have s: "getSignedUrl ?sv (DeleteObjectCommand (BUCKET (env ?c)) (js ''a.txt'')) 3600 = Inr ?u"
    by (simp add: example_services_def storage_services_def b)
  have f: "fetch ?sv ?u (js ''DELETE'') ?st = (Inr 500, ?st)"
    by simp
  from delete_never_reads_the_reply [OF a k s f] a k s f b show ?thesis by simp
qed


section \<open>C10: fields missing from the storage's output\<close>

text \<open>
  C10, as the code has it. When the output of the storage lacks \<^verbatim>\<open>Metadata\<close>,
  \<^verbatim>\<open>ContentLength\<close> or \<^verbatim>\<open>LastModified\<close>, the GET handler throws TypeError while it
  builds the headers and returns no response. A missing \<^verbatim>\<open>ETag\<close> does not throw: the
  headers are built as for the entity tag \<open>undefined\<close>.
\<close>

theorem absent_output_fields:
  assumes k: "key_of_filename (filename (params context)) = Inr key"
    and g: "send_GetObject sv (GetObjectCommand (BUCKET (env context)) key) st
            = (Inr response, st')"
  shows "(Metadata response = None \<or> ContentLength response = None
            \<or> LastModified response = None
          \<longrightarrow> onRequestGet sv context st = (Inl TypeError, st'))
       \<and> build_headers sv (response\<lparr>ETag := None\<rparr>) key
         = build_headers sv (response\<lparr>ETag := Some (js ''undefined'')\<rparr>) key"
  using k g build_headers_absent [of response sv key] build_headers_ETag [of sv response key]
  by (auto simp: onRequestGet_def)

text \<open>The theorem at three outputs, each lacking one of the three fields.\<close>

theorem absent_output_fields_witness:
  "onRequestGet
     (example_services\<lparr>send_GetObject := \<lambda>cmd st.
        (Inr \<lparr> Body = Some [0x68, 0x69], Metadata = None, ContentType = Some (js ''text/plain''),
               ContentLength = Some 2, LastModified = Some example_date,
               ETag = Some (js ''abc'') \<rparr>, st)\<rparr>)
     (example_context (js ''/a.txt'') (js ''a.txt'') []) (example_storage [])
   = (Inl TypeError, example_storage [])
   \<and> onRequestGet
     (example_services\<lparr>send_GetObject := \<lambda>cmd st.
        (Inr \<lparr> Body = Some [0x68, 0x69], Metadata = Some [], ContentType = Some (js ''text/plain''),
               ContentLength = None, LastModified = Some example_date,
               ETag = Some (js ''abc'') \<rparr>, st)\<rparr>)
     (example_context (js ''/a.txt'') (js ''a.txt'') []) (example_storage [])
   = (Inl TypeError, example_storage [])
   \<and> onRequestGet
     (example_services\<lparr>send_GetObject := \<lambda>cmd st.
        (Inr \<lparr> Body = Some [0x68, 0x69], Metadata = Some [], ContentType = Some (js ''text/plain''),
               ContentLength = Some 2, LastModified = None,
               ETag = Some (js ''abc'') \<rparr>, st)\<rparr>)
     (example_context (js ''/a.txt'') (js ''a.txt'') []) (example_storage [])
   = (Inl TypeError, example_storage [])"
proof -
  let ?c = "example_context (js ''/a.txt'') (js ''a.txt'') []"
  let ?o1 = "\<lparr> Body = Some [0x68, 0x69], Metadata = None, ContentType = Some (js ''text/plain''),
               ContentLength = Some 2, LastModified = Some example_date,
               ETag = Some (js ''abc'') \<rparr>"
  let ?o2 = "\<lparr> Body = Some [0x68, 0x69], Metadata = Some [], ContentType = Some (js ''text/plain''),
               ContentLength = None, LastModified = Some example_date,
               ETag = Some (js ''abc'') \<rparr>"
  let ?o3 = "\<lparr> Body = Some [0x68, 0x69], Metadata = Some [], ContentType = Some (js ''text/plain''),
               ContentLength = Some 2, LastModified = None,
               ETag = Some (js ''abc'') \<rparr>"
  let ?sv = "\<lambda>out. example_services\<lparr>send_GetObject := \<lambda>cmd st. (Inr out, st)\<rparr>"
  have k: "key_of_filename (filename (params ?c)) = Inr (js ''a.txt'')"
    by (simp add: run)
  have g: "send_GetObject (?sv out) (GetObjectCommand (BUCKET (env ?c)) (js ''a.txt''))
             (example_storage []) = (Inr out, example_storage [])" for out
    by simp
  from absent_output_fields [OF k g [of ?o1]] absent_output_fields [OF k g [of ?o2]]
    absent_output_fields [OF k g [of ?o3]]
  show ?thesis by simp
qed

text \<open>
  As the claim C10 states it, a missing \<^verbatim>\<open>ETag\<close> makes the handler throw; the handler
  serves the object with the header \<open>etag: undefined\<close>.
\<close>

theorem absent_ETag_counterexample:
  "map_sum id (\<lambda>r. (status r, headers_get (response_headers r) (js ''etag'')))
     (fst (onRequestGet
        (example_services\<lparr>send_GetObject := \<lambda>cmd st.
           (Inr \<lparr> Body = Some [0x68, 0x69],
                  Metadata = Some [(js ''x-store-visibility'', js ''public'')],
                  ContentType = Some (js ''text/plain''),
                  ContentLength = Some 2, LastModified = Some example_date,
                  ETag = None \<rparr>, st)\<rparr>)
        (example_context (js ''/a.txt'') (js ''a.txt'') []) (example_storage [])))
   = Inr (200, Some (js ''undefined''))"
  by (simp add: run)

end
